theory Spec2Isabelle
  imports Main
begin

section \<open>The gomote server front door (cmd/gomoteserver/gomoteserver.go)\<close>

text \<open>
  The program is one Go file: \<open>main\<close> wires a gRPC server and a status page behind one
  HTTP multiplexer, starts an optional SSH server, and blocks serving the primary
  listener. The model has two halves. The first is the per-request half: requests,
  response writers and handlers are values, and a handler is a function from a response
  writer and a request to what became of the request. The second is the start-up half:
  \<open>main\<close> is a function from the flags and from the answers of the collaborators (the
  packages the file imports) to the list of calls and log lines the process makes, in
  program order, and to the way the process ends.
\<close>

subsection \<open>Strings\<close>

text \<open>
  Go strings are byte sequences, as \<^typ>\<open>string\<close> is.
  \<open>strings.HasPrefix(s, prefix)\<close> is
  \<open>len(s) >= len(prefix) && s[0:len(prefix)] == prefix\<close>.
\<close>

definition HasPrefix :: "string \<Rightarrow> string \<Rightarrow> bool" where
  "HasPrefix s pre = (length pre \<le> length s \<and> take (length pre) s = pre)"

subsection \<open>Requests and response writers (net/http)\<close>

text \<open>
  Of \<open>http.Request\<close> the model keeps the fields the program and the multiplexer read:
  the method, \<open>r.URL.Path\<close>, the protocol version and the header map.
  \<open>http.Header\<close> is \<open>map[string][]string\<close>; a key that is absent reads as the nil
  slice.
\<close>

type_synonym Header = "string \<rightharpoonup> string list"

record Request =
  Method :: string
  URL_Path :: string
  ProtoMajor :: int
  ProtoMinor :: int
  Header :: Header

text \<open>
  \<open>Header.Get(key)\<close> returns the first value stored under the canonical form of the
  key, or the empty string. The only key the program reads is \<open>Content-Type\<close>, which is
  its own canonical form, so the canonicalisation is not modelled.
\<close>

definition Header_Get :: "Header \<Rightarrow> string \<Rightarrow> string" where
  "Header_Get h key = (case h key of None \<Rightarrow> [] | Some [] \<Rightarrow> [] | Some (v # _) \<Rightarrow> v)"

definition Header_Set :: "Header \<Rightarrow> string \<Rightarrow> string \<Rightarrow> Header" where
  "Header_Set h key v = h(key \<mapsto> [v])"

text \<open>
  A response writer holds the header map that \<open>w.Header()\<close> returns, the status line
  once it is written (the status code with the header map as it was sent), and the body
  written so far. \<open>WriteHeader\<close> after the first one is ignored; \<open>Write\<close> before
  any \<open>WriteHeader\<close> sends status 200 first.
\<close>

record ResponseWriter =
  handlerHeader :: Header
  wroteHeader :: "(nat \<times> Header) option"
  written :: string

definition NewResponseWriter :: ResponseWriter where
  "NewResponseWriter = \<lparr>handlerHeader = Map.empty, wroteHeader = None, written = []\<rparr>"

definition SetHeader :: "ResponseWriter \<Rightarrow> string \<Rightarrow> string \<Rightarrow> ResponseWriter" where
  "SetHeader w key v = w\<lparr>handlerHeader := Header_Set (handlerHeader w) key v\<rparr>"

definition StatusOK :: nat where
  "StatusOK = 200"

definition StatusMovedPermanently :: nat where
  "StatusMovedPermanently = 301"

definition StatusBadRequest :: nat where
  "StatusBadRequest = 400"

definition StatusNotFound :: nat where
  "StatusNotFound = 404"

definition WriteHeader :: "ResponseWriter \<Rightarrow> nat \<Rightarrow> ResponseWriter" where
  "WriteHeader w code =
     (case wroteHeader w of
        None \<Rightarrow> w\<lparr>wroteHeader := Some (code, handlerHeader w)\<rparr>
      | Some _ \<Rightarrow> w)"

definition Write :: "ResponseWriter \<Rightarrow> string \<Rightarrow> ResponseWriter" where
  "Write w s = (let w' = WriteHeader w StatusOK in w'\<lparr>written := written w' @ s\<rparr>)"


text \<open>
  \<open>http.Error\<close> sets two headers, writes the status and prints the message and a
  newline; \<open>http.NotFound\<close> is \<open>Error(w, "404 page not found", StatusNotFound)\<close>.
\<close>

definition http_Error :: "ResponseWriter \<Rightarrow> string \<Rightarrow> nat \<Rightarrow> ResponseWriter" where
  "http_Error w msg code =
     (let w1 = SetHeader w ''Content-Type'' ''text/plain; charset=utf-8'';
          w2 = SetHeader w1 ''X-Content-Type-Options'' ''nosniff'';
          w3 = WriteHeader w2 code
      in Write w3 (msg @ [CHR 0x0A]))"

definition http_NotFound :: "ResponseWriter \<Rightarrow> ResponseWriter" where
  "http_NotFound w = http_Error w ''404 page not found'' StatusNotFound"

subsection \<open>Handlers and the collaborators behind them\<close>

text \<open>
  The options of the gRPC server are the two interceptor options the program builds
  (package access supplies the interceptors, with \<open>access.IAPSkipAudienceValidation\<close>
  as their validator).
\<close>

datatype IAPValidator = IAPSkipAudienceValidation

datatype Interceptor =
    RequireIAPAuthUnaryInterceptor IAPValidator
  | RequireIAPAuthStreamInterceptor IAPValidator

datatype ServerOption =
    UnaryInterceptor Interceptor
  | StreamInterceptor Interceptor

text \<open>
  The values \<open>main\<close> hands to \<open>gomote.New\<close> are opaque: the session pool, the
  scheduler and the two clients are tokens, the certificate authority key and the
  bucket name are strings. \<open>grpc.NewServer(opts...)\<close> gives a server with no service;
  \<open>RegisterGomoteServiceServer\<close> adds one.
\<close>

datatype SessionPool = SessionPool
datatype Scheduler = Scheduler
datatype StorageClient = GCEStorageClient | UnauthenticatedStorageClient nat
datatype ConfigClient = ConfigClient nat

datatype GomoteServer =
  GomoteServer SessionPool Scheduler string string StorageClient ConfigClient

datatype GrpcServer = GrpcServer (serverOptions: "ServerOption list") (services: "GomoteServer list")

definition grpc_NewServer :: "ServerOption list \<Rightarrow> GrpcServer" where
  "grpc_NewServer opts = GrpcServer opts []"

definition RegisterGomoteServiceServer :: "GrpcServer \<Rightarrow> GomoteServer \<Rightarrow> GrpcServer" where
  "RegisterGomoteServiceServer gs srv = GrpcServer (serverOptions gs) (services gs @ [srv])"

text \<open>
  Two handlers are code of other packages: the gRPC server's \<open>ServeHTTP\<close> and
  \<open>pool.HandleReverse\<close>. What they do with a request is not modelled; that a request
  reached one of them is: the result \<open>Delegated c w r\<close> says that collaborator \<open>c\<close>
  was called with response writer \<open>w\<close> and request \<open>r\<close>. A handler of this program
  or of net/http ends in \<open>Responded w\<close>, the response writer after the handler, or in
  \<open>Redirected url code\<close>, the reply of \<open>http.RedirectHandler(url, code)\<close>.
\<close>

datatype Collaborator = Grpc_ServeHTTP GrpcServer | Pool_HandleReverse

datatype Served =
    Delegated Collaborator ResponseWriter Request
  | Responded ResponseWriter
  | Redirected string nat

type_synonym Handler = "ResponseWriter \<Rightarrow> Request \<Rightarrow> Served"

definition grpc_ServeHTTP :: "GrpcServer \<Rightarrow> Handler" where
  "grpc_ServeHTTP gs w r = Delegated (Grpc_ServeHTTP gs) w r"

definition pool_HandleReverse :: Handler where
  "pool_HandleReverse w r = Delegated Pool_HandleReverse w r"

definition RedirectHandler :: "string \<Rightarrow> nat \<Rightarrow> Handler" where
  "RedirectHandler url code w r = Redirected url code"

definition NotFoundHandler :: Handler where
  "NotFoundHandler w r = Responded (http_NotFound w)"

subsection \<open>The two handlers of the program\<close>

text \<open>
  \<^verbatim>\<open>
  func grpcHandlerFunc(gs *grpc.Server, h http.HandlerFunc) http.HandlerFunc {
      return func(w http.ResponseWriter, r *http.Request) {
          if r.ProtoMajor == 2 && strings.HasPrefix(r.Header.Get("Content-Type"), "application/grpc") {
              gs.ServeHTTP(w, r)
              return
          }
          h(w, r)
      }
  }
  \<close>
\<close>

definition grpcHandlerFunc :: "GrpcServer \<Rightarrow> Handler \<Rightarrow> Handler" where
  "grpcHandlerFunc gs h =
     (\<lambda>w r.
        if ProtoMajor r = 2 \<and> HasPrefix (Header_Get (Header r) ''Content-Type'') ''application/grpc''
        then grpc_ServeHTTP gs w r
        else h w r)"

text \<open>
  \<^verbatim>\<open>
  func handleStatus(w http.ResponseWriter, r *http.Request) {
      if r.URL.Path != "/" {
          http.NotFound(w, r)
          return
      }
      w.Header().Set("Content-Type", "text/plain")
      fmt.Fprintf(w, "gomote status page placeholder")
  }
  \<close>
  The format string has no verb, so \<open>Fprintf\<close> writes it as it is.
\<close>

definition handleStatus :: Handler where
  "handleStatus w r =
     (if URL_Path r \<noteq> ''/'' then Responded (http_NotFound w)
      else Responded (Write (SetHeader w ''Content-Type'' ''text/plain'')
                        ''gomote status page placeholder''))"

subsection \<open>The multiplexer (net/http ServeMux)\<close>

text \<open>
  \<open>main\<close> serves the primary listener from an \<open>http.ServeMux\<close>, which is library
  code. It is modelled as the library documents and implements it for the Go release the
  file's build constraint names (go1.20), for patterns without a host name: a pattern
  that ends in a slash names a subtree, any other pattern names one path; an exact match
  wins, then the longest subtree pattern that is a prefix of the path; a request other
  than CONNECT whose path is not in canonical form is answered with a redirect to the
  canonical path.

  \<open>path.Clean\<close> is modelled by its documentation: the path is cut at the slashes, empty
  elements and \<open>.\<close> are dropped, \<open>..\<close> removes the element before it (at the root
  of a rooted path it is dropped, at the start of a relative path it is kept), and the
  empty result is \<open>.\<close>.
\<close>

fun elements :: "string \<Rightarrow> string list" where
  "elements [] = [[]]"
| "elements (c # cs) =
     (if c = CHR ''/'' then [] # elements cs
      else (case elements cs of [] \<Rightarrow> [[c]] | e # es \<Rightarrow> (c # e) # es))"

fun clean_elements :: "bool \<Rightarrow> string list \<Rightarrow> string list \<Rightarrow> string list" where
  "clean_elements rooted [] out = rev out"
| "clean_elements rooted (e # es) out =
     (if e = [] \<or> e = ''.'' then clean_elements rooted es out
      else if e = ''..'' then
        (case out of
           [] \<Rightarrow> if rooted then clean_elements rooted es [] else clean_elements rooted es [e]
         | x # xs \<Rightarrow> if x = ''..'' then clean_elements rooted es (e # out)
                     else clean_elements rooted es xs)
      else clean_elements rooted es (e # out))"

fun join_slash :: "string list \<Rightarrow> string" where
  "join_slash [] = []"
| "join_slash [e] = e"
| "join_slash (e # es) = e @ ''/'' @ join_slash es"

definition path_Clean :: "string \<Rightarrow> string" where
  "path_Clean p =
     (if p = [] then ''.''
      else let rooted = (hd p = CHR ''/'');
               out = (if rooted then ''/'' else []) @ join_slash (clean_elements rooted (elements p) [])
           in if out = [] then ''.'' else out)"

text \<open>
  \<^verbatim>\<open>
  func cleanPath(p string) string {
      if p == "" { return "/" }
      if p[0] != '/' { p = "/" + p }
      np := path.Clean(p)
      if p[len(p)-1] == '/' && np != "/" {
          if len(p) == len(np)+1 && strings.HasPrefix(p, np) { np = p } else { np += "/" }
      }
      return np
  }
  \<close>
\<close>

definition cleanPath :: "string \<Rightarrow> string" where
  "cleanPath p0 =
     (if p0 = [] then ''/''
      else let p = (if hd p0 \<noteq> CHR ''/'' then ''/'' @ p0 else p0);
               np = path_Clean p
           in if last p = CHR ''/'' \<and> np \<noteq> ''/''
              then (if length p = length np + 1 \<and> HasPrefix p np then p else np @ ''/'')
              else np)"

text \<open>
  The multiplexer keeps a map from patterns to handlers and a list of the subtree
  patterns, longest first. \<open>HandleFunc\<close> panics on an empty pattern and on a pattern
  registered twice; \<open>main\<close> registers two different non-empty patterns once each, so
  the model has no such branch.
\<close>

record ServeMux =
  mux_m :: "string \<rightharpoonup> Handler"
  mux_es :: "(string \<times> Handler) list"

definition NewServeMux :: ServeMux where
  "NewServeMux = \<lparr>mux_m = Map.empty, mux_es = []\<rparr>"

fun appendSorted :: "(string \<times> Handler) list \<Rightarrow> string \<times> Handler \<Rightarrow> (string \<times> Handler) list" where
  "appendSorted [] e = [e]"
| "appendSorted (x # xs) e =
     (if length (fst x) < length (fst e) then e # x # xs else x # appendSorted xs e)"

definition HandleFunc :: "ServeMux \<Rightarrow> string \<Rightarrow> Handler \<Rightarrow> ServeMux" where
  "HandleFunc mux pat h =
     \<lparr>mux_m = (mux_m mux)(pat \<mapsto> h),
      mux_es = (if pat \<noteq> [] \<and> last pat = CHR ''/''
                then appendSorted (mux_es mux) (pat, h) else mux_es mux)\<rparr>"

fun match_es :: "(string \<times> Handler) list \<Rightarrow> string \<Rightarrow> Handler option" where
  "match_es [] path = None"
| "match_es ((pat, h) # es) path = (if HasPrefix path pat then Some h else match_es es path)"

definition mux_match :: "ServeMux \<Rightarrow> string \<Rightarrow> Handler option" where
  "mux_match mux path =
     (case mux_m mux path of Some h \<Rightarrow> Some h | None \<Rightarrow> match_es (mux_es mux) path)"

definition mux_handler :: "ServeMux \<Rightarrow> string \<Rightarrow> Handler" where
  "mux_handler mux path = (case mux_match mux path of Some h \<Rightarrow> h | None \<Rightarrow> NotFoundHandler)"

text \<open>
  A path that is not registered, while the path with a slash appended is, is redirected
  to the latter.
\<close>

definition shouldRedirect :: "ServeMux \<Rightarrow> string \<Rightarrow> bool" where
  "shouldRedirect mux path =
     (if mux_m mux path \<noteq> None then False
      else if path = [] then False
      else if mux_m mux (path @ ''/'') \<noteq> None then last path \<noteq> CHR ''/''
      else False)"

text \<open>
  \<open>ServeMux.Handler\<close>: a CONNECT request is matched on its path as it is; the path of
  any other request is cleaned first, and a path that cleaning changes is redirected.
  The redirect keeps the query string, which the model leaves out.
\<close>

definition ServeMux_Handler :: "ServeMux \<Rightarrow> Request \<Rightarrow> Handler" where
  "ServeMux_Handler mux r =
     (if Method r = ''CONNECT'' then
        (if shouldRedirect mux (URL_Path r)
         then RedirectHandler (URL_Path r @ ''/'') StatusMovedPermanently
         else mux_handler mux (URL_Path r))
      else
        (let path = cleanPath (URL_Path r)
         in if shouldRedirect mux path then RedirectHandler (path @ ''/'') StatusMovedPermanently
            else if path \<noteq> URL_Path r then RedirectHandler path StatusMovedPermanently
            else mux_handler mux (URL_Path r)))"

text \<open>
  \<open>ServeMux.ServeHTTP\<close> answers the request target \<open>*\<close> with status 400 and hands
  every other request to the handler \<open>Handler\<close> selects. The library tests
  \<open>r.RequestURI == "*"\<close>; the server parses the URL from the request target and gives
  \<open>*\<close> the path \<open>*\<close>, and the model tests the path.
\<close>

definition ProtoAtLeast :: "Request \<Rightarrow> int \<Rightarrow> int \<Rightarrow> bool" where
  "ProtoAtLeast r major minor =
     (ProtoMajor r > major \<or> (ProtoMajor r = major \<and> ProtoMinor r \<ge> minor))"

definition ServeMux_ServeHTTP :: "ServeMux \<Rightarrow> Handler" where
  "ServeMux_ServeHTTP mux w r =
     (if URL_Path r = ''*'' then
        Responded (WriteHeader (if ProtoAtLeast r 1 1 then SetHeader w ''Connection'' ''close'' else w)
                     StatusBadRequest)
      else ServeMux_Handler mux r w r)"

text \<open>
  The multiplexer of \<open>main\<close>:
  \<^verbatim>\<open>
  mux := http.NewServeMux()
  mux.HandleFunc("/reverse", pool.HandleReverse)
  mux.HandleFunc("/", grpcHandlerFunc(grpcServer, handleStatus)) // Serve a status page.
  \<close>
\<close>

definition main_mux :: "GrpcServer \<Rightarrow> ServeMux" where
  "main_mux grpcServer =
     HandleFunc (HandleFunc NewServeMux ''/reverse'' pool_HandleReverse)
       ''/'' (grpcHandlerFunc grpcServer handleStatus)"

subsection \<open>Flags and collaborators\<close>

text \<open>
  The three flags of the file, and the two secret flags \<open>main\<close> declares with
  \<open>secret.Flag\<close>, as the strings the program reads from them (\<open>*sshAddr\<close>,
  \<open>*buildEnvName\<close>, \<open>*mode\<close>, \<open>*privateKey\<close>, \<open>*publicKey\<close>).
\<close>

record Flags =
  sshAddr :: string
  buildEnvName :: string
  mode :: string
  privateKey :: string
  publicKey :: string

text \<open>
  A Go \<open>error\<close> is its message; where a function returns only an error, \<open>None\<close> is
  \<open>nil\<close>. \<open>time.Duration\<close> counts nanoseconds. A context is its timeout, if it has
  one. The SSH server is a handle.
\<close>

type_synonym error = string

definition Second :: int where
  "Second = 1000000000"

record Context =
  timeout :: "int option"

definition context_Background :: Context where
  "context_Background = \<lparr>timeout = None\<rparr>"

definition context_WithTimeout :: "Context \<Rightarrow> int \<Rightarrow> Context" where
  "context_WithTimeout parent d =
     (case timeout parent of
        None \<Rightarrow> parent\<lparr>timeout := Some d\<rparr>
      | Some d0 \<Rightarrow> parent\<lparr>timeout := Some (min d0 d)\<rparr>)"

datatype SSHServer = SSHServer nat

text \<open>
  Of \<open>buildenv.Environment\<close>, \<open>main\<close> reads the field \<open>GomoteTransferBucket\<close> and
  calls the method \<open>IAPServiceID\<close>.
\<close>

record Environment =
  GomoteTransferBucket :: string
  IAPServiceID :: "string \<Rightarrow> string"

text \<open>
  The packages the file imports are not part of it. What they answer is a parameter of
  the model, one field for each function \<open>main\<close> calls that can fail or that reads the
  outside world. \<open>remote.SSHKeyPair\<close> draws a fresh key pair at every call, so its
  answer depends on the number of the call, counted from 0. \<open>metadata.OnGCE\<close> caches
  its answer, so it has one. \<open>https.ListenAndServe\<close> either never returns or returns
  an error.
\<close>

datatype 'a Returning = NeverReturns | Returns 'a

record World =
  secret_InitFlagSupport :: "error option"
  remote_SSHKeyPair :: "nat \<Rightarrow> error + (string \<times> string)"
  metadata_OnGCE :: bool
  metadata_ProjectID :: "error + string"
  buildenv_ByProjectID :: "string \<Rightarrow> Environment"
  storage_NewClient :: "error + StorageClient"
  swarmclient_NewConfigClient :: "Context \<Rightarrow> error + ConfigClient"
  remote_NewSSHServer :: "string \<Rightarrow> string \<Rightarrow> string \<Rightarrow> string \<Rightarrow> SessionPool \<Rightarrow> error + SSHServer"
  sshServ_Close :: "SSHServer \<Rightarrow> error option"
  https_ListenAndServe :: "error option Returning"

subsection \<open>What the process does\<close>

text \<open>
  The process is observed through the list of its log lines and of its calls to the
  collaborators, in program order. \<open>Started_SSHServer s\<close> is the \<open>go\<close> statement
  that starts the goroutine running \<open>s.ListenAndServe()\<close>; what the goroutine logs is
  concurrent with \<open>main\<close> and not part of the list. \<open>Serving_Primary gs\<close> is the
  call \<open>https.ListenAndServe(ctx, mux)\<close>, with \<open>mux\<close> the multiplexer
  \<^term>\<open>main_mux gs\<close>.
\<close>

datatype Event =
    Logged string
  | Called_InitFlagSupport
  | Called_NewSessionPool
  | Called_SSHKeyPair nat
  | Called_NewScheduler
  | Queried_OnGCE
  | Queried_ProjectID
  | Called_ByProjectID string
  | Called_grpc_NewServer "ServerOption list"
  | Called_NewGCEConfiguration_StorageClient
  | Called_storage_NewClient
  | Called_NewConfigClient Context
  | Called_cancel
  | Called_gomote_New GomoteServer
  | Called_NewSSHServer string string string string
  | Started_SSHServer SSHServer
  | Called_Close SSHServer
  | Serving_Primary GrpcServer

text \<open>
  A step of the program yields its events and either a value, with which the program
  goes on, or the reason it does not go on. For a step of \<open>main\<close> the reason is the
  way the process ends: \<open>os.Exit\<close> was called, or the call that serves the primary
  listener never returns.
\<close>

datatype Ending = Exited int | ServesForever

type_synonym ('e, 'a) Step = "Event list \<times> ('e + 'a)"

definition andThen :: "('e, 'a) Step \<Rightarrow> ('a \<Rightarrow> ('e, 'b) Step) \<Rightarrow> ('e, 'b) Step" where
  "andThen m k =
     (case m of
        (t, Inl e) \<Rightarrow> (t, Inl e)
      | (t, Inr v) \<Rightarrow> (case k v of (t', x) \<Rightarrow> (t @ t', x)))"

definition calls :: "Event \<Rightarrow> 'a \<Rightarrow> ('e, 'a) Step" where
  "calls ev v = ([ev], Inr v)"

text \<open>
  A \<open>defer\<close> statement pushes a call; the calls pushed by a function run, last pushed
  first, when the function returns. \<open>os.Exit\<close> ends the process at once: deferred
  calls are not run. \<open>log.Fatalf\<close> and \<open>log.Fatalln\<close> print and call
  \<open>os.Exit(1)\<close>. The lists of deferred calls have the call pushed last at the head.

  The file defers two calls: \<open>cancel()\<close> in \<open>mustLUCIConfigClient\<close>, and in
  \<open>main\<close>
  \<^verbatim>\<open>
  defer func() {
      err := sshServ.Close()
      if err != nil {
          log.Printf("unable to close SSH server: %s", err)
      }
  }()
  \<close>
\<close>

datatype Deferred = Cancel | Close_SSHServer SSHServer

fun run_deferred :: "World \<Rightarrow> Deferred \<Rightarrow> Event list" where
  "run_deferred w Cancel = [Called_cancel]"
| "run_deferred w (Close_SSHServer sshServ) =
     (case sshServ_Close w sshServ of
        None \<Rightarrow> [Called_Close sshServ]
      | Some err \<Rightarrow> [Called_Close sshServ, Logged (''unable to close SSH server: '' @ err)])"

definition returns :: "World \<Rightarrow> Deferred list \<Rightarrow> 'a \<Rightarrow> ('e, 'a) Step" where
  "returns w deferred v = (concat (map (run_deferred w) deferred), Inr v)"

definition os_Exit :: "int \<Rightarrow> Deferred list \<Rightarrow> (Ending, 'a) Step" where
  "os_Exit code deferred = ([], Inl (Exited code))"

definition log_Fatal :: "string \<Rightarrow> Deferred list \<Rightarrow> (Ending, 'a) Step" where
  "log_Fatal msg deferred = (case os_Exit 1 deferred of (t, x) \<Rightarrow> (Logged msg # t, x))"

subsection \<open>The helpers of main\<close>

text \<open>
  \<^verbatim>\<open>
  func mustRetrieveSSHCertificateAuthority() (privateKey []byte) {
      privateKey, _, err := remote.SSHKeyPair()
      if err != nil {
          log.Fatalf("unable to create SSH CA cert: %s", err)
      }
      return privateKey
  }
  \<close>
  It makes the first call of \<open>remote.SSHKeyPair\<close> in the process.
\<close>

definition mustRetrieveSSHCertificateAuthority :: "World \<Rightarrow> (Ending, string) Step" where
  "mustRetrieveSSHCertificateAuthority w =
     andThen (calls (Called_SSHKeyPair 0) (remote_SSHKeyPair w 0)) (\<lambda>res.
       case res of
         Inl err \<Rightarrow> log_Fatal (''unable to create SSH CA cert: '' @ err) []
       | Inr (caPrivateKey, _) \<Rightarrow> returns w [] caPrivateKey)"

text \<open>
  \<^verbatim>\<open>
  func mustStorageClient() *storage.Client {
      if metadata.OnGCE() {
          return pool.NewGCEConfiguration().StorageClient()
      }
      storageClient, err := storage.NewClient(context.Background(), option.WithoutAuthentication())
      if err != nil {
          log.Fatalf("unable to create storage client: %s", err)
      }
      return storageClient
  }
  \<close>
\<close>

definition mustStorageClient :: "World \<Rightarrow> (Ending, StorageClient) Step" where
  "mustStorageClient w =
     andThen (calls Queried_OnGCE (metadata_OnGCE w)) (\<lambda>onGCE.
       if onGCE then
         andThen (calls Called_NewGCEConfiguration_StorageClient GCEStorageClient) (returns w [])
       else
         andThen (calls Called_storage_NewClient (storage_NewClient w)) (\<lambda>res.
           case res of
             Inl err \<Rightarrow> log_Fatal (''unable to create storage client: '' @ err) []
           | Inr storageClient \<Rightarrow> returns w [] storageClient))"

text \<open>
  \<^verbatim>\<open>
  func mustLUCIConfigClient() *swarmclient.ConfigClient {
      ctx, cancel := context.WithTimeout(context.Background(), 10*time.Second)
      defer cancel()
      c, err := swarmclient.NewConfigClient(ctx)
      if err != nil {
          log.Fatalf("unable to create LUCI config client: %s", err)
      }
      return c
  }
  \<close>
\<close>

definition mustLUCIConfigClient :: "World \<Rightarrow> (Ending, ConfigClient) Step" where
  "mustLUCIConfigClient w =
     (let ctx = context_WithTimeout context_Background (10 * Second);
          deferred = [Cancel]
      in andThen (calls (Called_NewConfigClient ctx) (swarmclient_NewConfigClient w ctx)) (\<lambda>res.
           case res of
             Inl err \<Rightarrow> log_Fatal (''unable to create LUCI config client: '' @ err) deferred
           | Inr c \<Rightarrow> returns w deferred c))"

subsection \<open>main, lines 54 to 69: the build environment and the options of the gRPC server\<close>

text \<open>
  \<^verbatim>\<open>
  var gomoteBucket string
  var opts []grpc.ServerOption
  if *buildEnvName == "" && *mode != "dev" && metadata.OnGCE() {
      projectID, err := metadata.ProjectID()
      if err != nil {
          log.Fatalf("metadata.ProjectID() = %v", err)
      }
      env := buildenv.ByProjectID(projectID)
      gomoteBucket = env.GomoteTransferBucket
      var coordinatorBackend, serviceID = "coordinator-internal-iap", ""
      if serviceID = env.IAPServiceID(coordinatorBackend); serviceID == "" {
          log.Fatalf("unable to retrieve Service ID for backend service=%q", coordinatorBackend)
      }
      opts = append(opts, grpc.UnaryInterceptor(access.RequireIAPAuthUnaryInterceptor(access.IAPSkipAudienceValidation)))
      opts = append(opts, grpc.StreamInterceptor(access.RequireIAPAuthStreamInterceptor(access.IAPSkipAudienceValidation)))
  }
  \<close>
  \<open>&&\<close> evaluates its right operand only when the left one is true, so
  \<open>metadata.OnGCE()\<close> is called only when the first two tests hold. The verb \<open>%q\<close>
  prints the backend name, which has no character to escape, between double quotes.
\<close>

definition quoted :: "string \<Rightarrow> string" where
  "quoted s = [CHR 0x22] @ s @ [CHR 0x22]"

definition main_resolve :: "World \<Rightarrow> Flags \<Rightarrow> (Ending, string \<times> ServerOption list) Step" where
  "main_resolve w f =
     andThen (if buildEnvName f = [] \<and> mode f \<noteq> ''dev''
              then calls Queried_OnGCE (metadata_OnGCE w)
              else ([], Inr False)) (\<lambda>cond.
       if cond then
         andThen (calls Queried_ProjectID (metadata_ProjectID w)) (\<lambda>res.
           case res of
             Inl err \<Rightarrow> log_Fatal (''metadata.ProjectID() = '' @ err) []
           | Inr projectID \<Rightarrow>
               andThen (calls (Called_ByProjectID projectID) (buildenv_ByProjectID w projectID)) (\<lambda>env.
                 let gomoteBucket = GomoteTransferBucket env;
                     coordinatorBackend = ''coordinator-internal-iap'';
                     serviceID = IAPServiceID env coordinatorBackend
                 in if serviceID = [] then
                      log_Fatal (''unable to retrieve Service ID for backend service=''
                                   @ quoted coordinatorBackend) []
                    else
                      ([], Inr (gomoteBucket,
                         [] @ [UnaryInterceptor (RequireIAPAuthUnaryInterceptor IAPSkipAudienceValidation)]
                            @ [StreamInterceptor (RequireIAPAuthStreamInterceptor IAPSkipAudienceValidation)]))))
       else ([], Inr ([], [])))"

subsection \<open>main, lines 78 to 106: the SSH server\<close>

text \<open>
  \<^verbatim>\<open>
  configureSSHServer := func() (*remote.SSHServer, error) {
      if *privateKey != "" && *publicKey != "" {
          return remote.NewSSHServer(*sshAddr, []byte(*privateKey), []byte(*publicKey), sshCA, sp)
      }
      if *mode != "dev" {
          return nil, errors.New("SSH key pair is not configured")
      }
      priKey, pubKey, err := remote.SSHKeyPair()
      if err != nil {
          return nil, fmt.Errorf("unable to generate development SSH key pair: %s", err)
      }
      return remote.NewSSHServer(*sshAddr, priKey, pubKey, sshCA, sp)
  }
  \<close>
  The closure returns an error instead of ending the process, so the reason of its step
  is the error. Its call of \<open>remote.SSHKeyPair\<close> is the second one of the process:
  \<open>mustRetrieveSSHCertificateAuthority\<close> made the first, and \<open>main\<close> does not get
  here when that one fails.
\<close>

definition NewSSHServer :: "World \<Rightarrow> string \<Rightarrow> string \<Rightarrow> string \<Rightarrow> string \<Rightarrow> SessionPool \<Rightarrow> (error, SSHServer) Step" where
  "NewSSHServer w addr hostKey pubKey ca sp =
     ([Called_NewSSHServer addr hostKey pubKey ca], remote_NewSSHServer w addr hostKey pubKey ca sp)"

definition configureSSHServer :: "World \<Rightarrow> Flags \<Rightarrow> string \<Rightarrow> SessionPool \<Rightarrow> (error, SSHServer) Step" where
  "configureSSHServer w f sshCA sp =
     (if privateKey f \<noteq> [] \<and> publicKey f \<noteq> [] then
        NewSSHServer w (sshAddr f) (privateKey f) (publicKey f) sshCA sp
      else if mode f \<noteq> ''dev'' then
        ([], Inl ''SSH key pair is not configured'')
      else
        andThen (calls (Called_SSHKeyPair 1) (remote_SSHKeyPair w 1)) (\<lambda>res.
          case res of
            Inl err \<Rightarrow> ([], Inl (''unable to generate development SSH key pair: '' @ err))
          | Inr (priKey, pubKey) \<Rightarrow> NewSSHServer w (sshAddr f) priKey pubKey sshCA sp))"

text \<open>
  \<^verbatim>\<open>
  sshServ, err := configureSSHServer()
  if err != nil {
      log.Printf("unable to configure SSH server: %s", err)
  } else {
      go func() {
          log.Printf("running SSH server on %s", *sshAddr)
          err := sshServ.ListenAndServe()
          log.Printf("SSH server ended with error: %v", err)
      }()
      defer func() { ... sshServ.Close() ... }()
  }
  \<close>
  The step yields the calls that \<open>main\<close> has deferred after it.
\<close>

definition main_shell :: "World \<Rightarrow> Flags \<Rightarrow> string \<Rightarrow> SessionPool \<Rightarrow> (Ending, Deferred list) Step" where
  "main_shell w f sshCA sp =
     (case configureSSHServer w f sshCA sp of
        (t, Inl err) \<Rightarrow> (t @ [Logged (''unable to configure SSH server: '' @ err)], Inr [])
      | (t, Inr sshServ) \<Rightarrow> (t @ [Started_SSHServer sshServ], Inr [Close_SSHServer sshServ]))"

subsection \<open>main\<close>

text \<open>
  Lines 42 to 76, up to the multiplexer. The arguments of \<open>gomote.New\<close> are evaluated
  from left to right, the storage client before the configuration client. The step
  yields the certificate authority key and the gRPC server with its service registered.
\<close>

definition main_setup :: "World \<Rightarrow> Flags \<Rightarrow> (Ending, string \<times> SessionPool \<times> GrpcServer) Step" where
  "main_setup w f =
     andThen (calls (Logged ''starting gomote server'') ()) (\<lambda>_.
     andThen (calls Called_InitFlagSupport (secret_InitFlagSupport w)) (\<lambda>err.
     andThen (case err of Some e \<Rightarrow> log_Fatal e [] | None \<Rightarrow> ([], Inr ())) (\<lambda>_.
     andThen (calls Called_NewSessionPool SessionPool) (\<lambda>sp.
     andThen (mustRetrieveSSHCertificateAuthority w) (\<lambda>sshCA.
     andThen (calls Called_NewScheduler Scheduler) (\<lambda>sched.
     andThen (main_resolve w f) (\<lambda>(gomoteBucket, opts).
     andThen (calls (Called_grpc_NewServer opts) (grpc_NewServer opts)) (\<lambda>grpcServer.
     andThen (mustStorageClient w) (\<lambda>storageClient.
     andThen (mustLUCIConfigClient w) (\<lambda>configClient.
     andThen (let srv = GomoteServer sp sched sshCA gomoteBucket storageClient configClient
              in calls (Called_gomote_New srv) srv) (\<lambda>gomoteServer.
     ([], Inr (sshCA, sp, RegisterGomoteServiceServer grpcServer gomoteServer)))))))))))))"

text \<open>
  The whole of \<open>main\<close>. Its last statement is
  \<^verbatim>\<open>log.Fatalln(https.ListenAndServe(context.Background(), mux))\<close>
  after which the function would return. A nil error prints as \<open><nil>\<close>.
\<close>

definition main :: "World \<Rightarrow> Flags \<Rightarrow> (Ending, unit) Step" where
  "main w f =
     andThen (main_setup w f) (\<lambda>(sshCA, sp, grpcServer).
     andThen (main_shell w f sshCA sp) (\<lambda>deferred.
     andThen (case https_ListenAndServe w of
                NeverReturns \<Rightarrow> ([Serving_Primary grpcServer], Inl ServesForever)
              | Returns err \<Rightarrow> calls (Serving_Primary grpcServer) err) (\<lambda>err.
     andThen (log_Fatal (case err of None \<Rightarrow> ''<nil>'' | Some e \<Rightarrow> e) deferred) (\<lambda>_ :: unit.
     returns w deferred ()))))"

text \<open>
  The events of lines 42 to 76: every event but those of the SSH server and of the
  primary listener.
\<close>

fun of_setup :: "Event \<Rightarrow> bool" where
  "of_setup (Started_SSHServer s) = False"
| "of_setup (Called_Close s) = False"
| "of_setup (Serving_Primary g) = False"
| "of_setup (Called_NewSSHServer a b c d) = False"
| "of_setup e = True"

subsection \<open>Notions of the specification\<close>

text \<open>
  The status and the headers of a response are those sent with the status line.
\<close>

definition response_status :: "ResponseWriter \<Rightarrow> nat option" where
  "response_status w = map_option fst (wroteHeader w)"

definition response_header :: "ResponseWriter \<Rightarrow> string \<Rightarrow> string list" where
  "response_header w key =
     (case wroteHeader w of
        None \<Rightarrow> []
      | Some (code, h) \<Rightarrow> (case h key of None \<Rightarrow> [] | Some vs \<Rightarrow> vs))"

text \<open>
  The specification calls the deployment context managed when no build environment is
  named, the mode is not \<open>dev\<close> and the process runs on the cloud substrate. The source
  has no such value; it is the condition of the \<open>if\<close> on line 56.
\<close>

definition Managed :: "World \<Rightarrow> Flags \<Rightarrow> bool" where
  "Managed w f = (buildEnvName f = [] \<and> mode f \<noteq> ''dev'' \<and> metadata_OnGCE w)"

subsection \<open>Concrete inputs\<close>

text \<open>
  Two worlds and two sets of flags, on which the theorems below are exercised. On the
  laptop there is no metadata server; everything else works, and the primary listener
  finds its port taken. In the cloud the metadata server knows the project, and the
  build environment of the project has a service identity for the coordinator backend.
\<close>

definition laptop :: World where
  "laptop =
     \<lparr>secret_InitFlagSupport = None,
      remote_SSHKeyPair = (\<lambda>n. if n = 0 then Inr (''ca-private'', ''ca-public'')
                                else Inr (''dev-private'', ''dev-public'')),
      metadata_OnGCE = False,
      metadata_ProjectID = Inl ''metadata: not running on GCE'',
      buildenv_ByProjectID = (\<lambda>p. \<lparr>GomoteTransferBucket = [], IAPServiceID = (\<lambda>b. [])\<rparr>),
      storage_NewClient = Inr (UnauthenticatedStorageClient 0),
      swarmclient_NewConfigClient = (\<lambda>ctx. Inr (ConfigClient 0)),
      remote_NewSSHServer = (\<lambda>addr hostKey pubKey ca sp. Inr (SSHServer 0)),
      sshServ_Close = (\<lambda>s. None),
      https_ListenAndServe = Returns (Some ''listen tcp :443: bind: address already in use'')\<rparr>"

definition cloud :: World where
  "cloud =
     laptop
       \<lparr>metadata_OnGCE := True,
        metadata_ProjectID := Inr ''symbolic-datum-552'',
        buildenv_ByProjectID :=
          (\<lambda>p. \<lparr>GomoteTransferBucket = ''go-gomote-transfer'',
                 IAPServiceID = (\<lambda>b. if b = ''coordinator-internal-iap'' then ''1234567890'' else [])\<rparr>),
        https_ListenAndServe := NeverReturns\<rparr>"

definition dev_flags :: Flags where
  "dev_flags =
     \<lparr>sshAddr = '':2222'', buildEnvName = [], mode = ''dev'', privateKey = [], publicKey = []\<rparr>"

definition prod_flags :: Flags where
  "prod_flags =
     \<lparr>sshAddr = '':2222'', buildEnvName = [], mode = [], privateKey = [], publicKey = []\<rparr>"

text \<open>
  Two laptops on which one collaborator fails: the second key pair cannot be drawn, or
  the configuration client is not built within its timeout.
\<close>

definition laptop_without_entropy :: World where
  "laptop_without_entropy =
     laptop\<lparr>remote_SSHKeyPair :=
              (\<lambda>n. if n = 0 then Inr (''ca-private'', ''ca-public'') else Inl ''EOF'')\<rparr>"

definition laptop_without_luci :: World where
  "laptop_without_luci =
     laptop\<lparr>swarmclient_NewConfigClient := (\<lambda>ctx. Inl ''context deadline exceeded'')\<rparr>"

text \<open>Production flags with both secrets, and with the private key only.\<close>

definition keyed_flags :: Flags where
  "keyed_flags = prod_flags\<lparr>privateKey := ''host-private'', publicKey := ''gomote-public''\<rparr>"

definition half_keyed_flags :: Flags where
  "half_keyed_flags = prod_flags\<lparr>privateKey := ''host-private''\<rparr>"

text \<open>
  A gRPC call sent to the path \<open>/reverse\<close>, a gRPC call of the gomote service, and a
  browser asking for the status page.
\<close>

definition reverse_grpc_request :: Request where
  "reverse_grpc_request =
     \<lparr>Method = ''POST'', URL_Path = ''/reverse'', ProtoMajor = 2, ProtoMinor = 0,
      Header = [''Content-Type'' \<mapsto> [''application/grpc'']]\<rparr>"

definition gomote_grpc_request :: Request where
  "gomote_grpc_request =
     \<lparr>Method = ''POST'', URL_Path = ''/protos.GomoteService/ListInstances'', ProtoMajor = 2,
      ProtoMinor = 0, Header = [''Content-Type'' \<mapsto> [''application/grpc+proto'']]\<rparr>"

definition status_request :: Request where
  "status_request =
     \<lparr>Method = ''GET'', URL_Path = ''/'', ProtoMajor = 1, ProtoMinor = 1, Header = Map.empty\<rparr>"

section \<open>Properties of the request path\<close>

subsection \<open>The multiplexer of main\<close>

lemma HasPrefix_slash: "HasPrefix p ''/'' = (\<exists>s. p = CHR ''/'' # s)"
  by (cases p) (auto simp: HasPrefix_def)

lemma path_Clean_rooted: "HasPrefix p ''/'' \<Longrightarrow> HasPrefix (path_Clean p) ''/''"
  by (auto simp: HasPrefix_slash path_Clean_def Let_def)

lemma cleanPath_rooted: "HasPrefix (cleanPath p) ''/''"
proof (cases "p = []")
  case True
  then show ?thesis by (simp add: cleanPath_def HasPrefix_def)
next
  case False
  define q where "q = (if hd p \<noteq> CHR ''/'' then ''/'' @ p else p)"
  have q: "HasPrefix q ''/''"
    using False by (cases p) (auto simp: q_def HasPrefix_def)
  then have c: "HasPrefix (path_Clean q) ''/''" by (rule path_Clean_rooted)
  then have "HasPrefix (path_Clean q @ ''/'') ''/''" by (auto simp: HasPrefix_slash)
  with q c show ?thesis
    using False unfolding cleanPath_def Let_def q_def [symmetric] by simp
qed

lemma cleanPath_reverse: "cleanPath ''/reverse'' = ''/reverse''"
  by (simp add: cleanPath_def path_Clean_def HasPrefix_def)

lemma main_mux_m:
  "mux_m (main_mux gs) p =
     (if p = ''/'' then Some (grpcHandlerFunc gs handleStatus)
      else if p = ''/reverse'' then Some pool_HandleReverse else None)"
  by (simp add: main_mux_def HandleFunc_def NewServeMux_def)

lemma main_mux_es: "mux_es (main_mux gs) = [(''/'', grpcHandlerFunc gs handleStatus)]"
  by (simp add: main_mux_def HandleFunc_def NewServeMux_def)

lemma main_mux_shouldRedirect: "\<not> shouldRedirect (main_mux gs) p"
proof -
  have "p @ ''/'' \<noteq> ''/reverse''"
    using last_snoc [of p "CHR ''/''"] by (auto simp del: last_snoc)
  moreover have "p \<noteq> [] \<Longrightarrow> p @ ''/'' \<noteq> ''/''" by (cases p) auto
  ultimately show ?thesis by (auto simp: shouldRedirect_def main_mux_m)
qed

lemma main_mux_handler:
  "mux_handler (main_mux gs) p =
     (if p = ''/reverse'' then pool_HandleReverse
      else if HasPrefix p ''/'' then grpcHandlerFunc gs handleStatus
      else NotFoundHandler)"
  by (auto simp: mux_handler_def mux_match_def main_mux_m main_mux_es HasPrefix_def)

lemma main_mux_Handler:
  "ServeMux_Handler (main_mux gs) r =
     (if Method r \<noteq> ''CONNECT'' \<and> cleanPath (URL_Path r) \<noteq> URL_Path r
      then RedirectHandler (cleanPath (URL_Path r)) StatusMovedPermanently
      else if URL_Path r = ''/reverse'' then pool_HandleReverse
      else if \<not> HasPrefix (URL_Path r) ''/'' then NotFoundHandler
      else grpcHandlerFunc gs handleStatus)"
proof -
  have "HasPrefix (URL_Path r) ''/''" if "cleanPath (URL_Path r) = URL_Path r"
    using cleanPath_rooted [of "URL_Path r"] that by simp
  then show ?thesis
    by (simp add: ServeMux_Handler_def Let_def main_mux_shouldRedirect main_mux_handler)
qed

text \<open>
  C1, as stated, fails: a gRPC call over HTTP/2 whose path is \<open>/reverse\<close> is handed to
  \<open>pool.HandleReverse\<close>, not to the gRPC server, so the path takes part in the routing of
  the primary listener.
\<close>

theorem reverse_grpc_request_not_served_by_grpc:
  "ProtoMajor reverse_grpc_request = 2
   \<and> HasPrefix (Header_Get (Header reverse_grpc_request) ''Content-Type'') ''application/grpc''
   \<and> ServeMux_ServeHTTP (main_mux (grpc_NewServer [])) NewResponseWriter reverse_grpc_request
       = Delegated Pool_HandleReverse NewResponseWriter reverse_grpc_request
   \<and> ServeMux_ServeHTTP (main_mux (grpc_NewServer [])) NewResponseWriter reverse_grpc_request
       \<noteq> grpc_ServeHTTP (grpc_NewServer []) NewResponseWriter reverse_grpc_request"
  by (simp add: ServeMux_ServeHTTP_def main_mux_Handler cleanPath_reverse reverse_grpc_request_def
      Header_Get_def HasPrefix_def pool_HandleReverse_def grpc_ServeHTTP_def)

text \<open>
  C1, amended: the primary listener as a whole. The multiplexer answers three kinds of
  request itself (the request target \<open>*\<close>, a path that is not canonical, and a CONNECT
  whose path does not start with a slash) and hands the path \<open>/reverse\<close> to
  \<open>pool.HandleReverse\<close>. Every remaining request reaches the handler registered for
  \<open>/\<close>, which hands it to the gRPC server if and only if the protocol major version is 2
  and the Content-Type header starts with \<open>application/grpc\<close>, and to the status
  handler otherwise; between these two, nothing else of the request takes part: two
  requests that agree on the two fields are both handed to the gRPC server or neither
  is.
\<close>

theorem primary_listener_routing:
  "ServeMux_ServeHTTP (main_mux gs) w r =
     (if URL_Path r = ''*'' then
        Responded (WriteHeader (if ProtoAtLeast r 1 1 then SetHeader w ''Connection'' ''close'' else w)
                     StatusBadRequest)
      else if Method r \<noteq> ''CONNECT'' \<and> cleanPath (URL_Path r) \<noteq> URL_Path r then
        Redirected (cleanPath (URL_Path r)) StatusMovedPermanently
      else if URL_Path r = ''/reverse'' then Delegated Pool_HandleReverse w r
      else if \<not> HasPrefix (URL_Path r) ''/'' then Responded (http_NotFound w)
      else grpcHandlerFunc gs handleStatus w r)
   \<and> grpcHandlerFunc gs handleStatus w r =
       (if ProtoMajor r = 2 \<and> HasPrefix (Header_Get (Header r) ''Content-Type'') ''application/grpc''
        then Delegated (Grpc_ServeHTTP gs) w r
        else handleStatus w r)
   \<and> (grpcHandlerFunc gs handleStatus w r = Delegated (Grpc_ServeHTTP gs) w r)
       = (ProtoMajor r = 2 \<and> HasPrefix (Header_Get (Header r) ''Content-Type'') ''application/grpc'')
   \<and> (\<forall>r'. ProtoMajor r' = ProtoMajor r
            \<and> Header_Get (Header r') ''Content-Type'' = Header_Get (Header r) ''Content-Type'' \<longrightarrow>
          (grpcHandlerFunc gs handleStatus w r' = Delegated (Grpc_ServeHTTP gs) w r')
            = (grpcHandlerFunc gs handleStatus w r = Delegated (Grpc_ServeHTTP gs) w r))"
proof -
  have a: "grpcHandlerFunc gs handleStatus w x =
       (if ProtoMajor x = 2 \<and> HasPrefix (Header_Get (Header x) ''Content-Type'') ''application/grpc''
        then Delegated (Grpc_ServeHTTP gs) w x
        else handleStatus w x)" for x
    by (simp add: grpcHandlerFunc_def grpc_ServeHTTP_def)
  have b: "(grpcHandlerFunc gs handleStatus w x = Delegated (Grpc_ServeHTTP gs) w x)
       = (ProtoMajor x = 2 \<and> HasPrefix (Header_Get (Header x) ''Content-Type'') ''application/grpc'')"
    for x
    by (simp add: a handleStatus_def)
  have c: "ServeMux_ServeHTTP (main_mux gs) w r =
     (if URL_Path r = ''*'' then
        Responded (WriteHeader (if ProtoAtLeast r 1 1 then SetHeader w ''Connection'' ''close'' else w)
                     StatusBadRequest)
      else if Method r \<noteq> ''CONNECT'' \<and> cleanPath (URL_Path r) \<noteq> URL_Path r then
        Redirected (cleanPath (URL_Path r)) StatusMovedPermanently
      else if URL_Path r = ''/reverse'' then Delegated Pool_HandleReverse w r
      else if \<not> HasPrefix (URL_Path r) ''/'' then Responded (http_NotFound w)
      else grpcHandlerFunc gs handleStatus w r)"
    by (simp add: ServeMux_ServeHTTP_def main_mux_Handler RedirectHandler_def
        pool_HandleReverse_def NotFoundHandler_def)
  have d: "\<forall>r'. ProtoMajor r' = ProtoMajor r
            \<and> Header_Get (Header r') ''Content-Type'' = Header_Get (Header r) ''Content-Type'' \<longrightarrow>
          (grpcHandlerFunc gs handleStatus w r' = Delegated (Grpc_ServeHTTP gs) w r')
            = (grpcHandlerFunc gs handleStatus w r = Delegated (Grpc_ServeHTTP gs) w r)"
    by (simp add: b)
  show ?thesis
    by (rule conjI [OF c conjI [OF a conjI [OF b d]]])
qed

theorem primary_listener_routing_witness:
  "ServeMux_ServeHTTP (main_mux (grpc_NewServer [])) NewResponseWriter gomote_grpc_request
     = Delegated (Grpc_ServeHTTP (grpc_NewServer [])) NewResponseWriter gomote_grpc_request
   \<and> ServeMux_ServeHTTP (main_mux (grpc_NewServer [])) NewResponseWriter status_request
     = handleStatus NewResponseWriter status_request
   \<and> ProtoMajor (gomote_grpc_request\<lparr>Method := ''GET'', URL_Path := ''/''\<rparr>)
       = ProtoMajor gomote_grpc_request
   \<and> Header_Get (Header (gomote_grpc_request\<lparr>Method := ''GET'', URL_Path := ''/''\<rparr>)) ''Content-Type''
       = Header_Get (Header gomote_grpc_request) ''Content-Type''
   \<and> grpcHandlerFunc (grpc_NewServer []) handleStatus NewResponseWriter
         (gomote_grpc_request\<lparr>Method := ''GET'', URL_Path := ''/''\<rparr>)
       = Delegated (Grpc_ServeHTTP (grpc_NewServer [])) NewResponseWriter
           (gomote_grpc_request\<lparr>Method := ''GET'', URL_Path := ''/''\<rparr>)"
proof -
  have c1: "cleanPath (URL_Path gomote_grpc_request) = URL_Path gomote_grpc_request"
    by (simp add: gomote_grpc_request_def cleanPath_def path_Clean_def HasPrefix_def)
  have c2: "cleanPath (URL_Path status_request) = URL_Path status_request"
    by (simp add: status_request_def cleanPath_def path_Clean_def HasPrefix_def)
  have g: "ProtoMajor gomote_grpc_request = 2
           \<and> HasPrefix (Header_Get (Header gomote_grpc_request) ''Content-Type'') ''application/grpc''"
    by (simp add: gomote_grpc_request_def Header_Get_def HasPrefix_def)
  have s: "ProtoMajor status_request \<noteq> 2"
    by (simp add: status_request_def)
  have p: "URL_Path gomote_grpc_request \<noteq> ''*''" "URL_Path gomote_grpc_request \<noteq> ''/reverse''"
    "HasPrefix (URL_Path gomote_grpc_request) ''/''"
    "URL_Path status_request \<noteq> ''*''" "URL_Path status_request \<noteq> ''/reverse''"
    "HasPrefix (URL_Path status_request) ''/''"
    by (simp_all add: gomote_grpc_request_def status_request_def HasPrefix_def)
  have e: "ProtoMajor (gomote_grpc_request\<lparr>Method := ''GET'', URL_Path := ''/''\<rparr>)
             = ProtoMajor gomote_grpc_request
           \<and> Header_Get (Header (gomote_grpc_request\<lparr>Method := ''GET'', URL_Path := ''/''\<rparr>)) ''Content-Type''
             = Header_Get (Header gomote_grpc_request) ''Content-Type''"
    by simp
  note t = primary_listener_routing [of "grpc_NewServer []" NewResponseWriter gomote_grpc_request]
  have "grpcHandlerFunc (grpc_NewServer []) handleStatus NewResponseWriter
          (gomote_grpc_request\<lparr>Method := ''GET'', URL_Path := ''/''\<rparr>)
        = Delegated (Grpc_ServeHTTP (grpc_NewServer [])) NewResponseWriter
            (gomote_grpc_request\<lparr>Method := ''GET'', URL_Path := ''/''\<rparr>)"
    using t e g by blast
  then show ?thesis
    using t primary_listener_routing [of "grpc_NewServer []" NewResponseWriter status_request]
      c1 c2 g s p
    by simp
qed

text \<open>
  C9: a request whose path is exactly \<open>/reverse\<close> is handed to \<open>pool.HandleReverse\<close>,
  with the response writer and the request as they came; it reaches neither the gRPC
  server nor the status handler, whatever its protocol version and Content-Type.
\<close>

theorem reverse_path_served_by_HandleReverse:
  assumes "URL_Path r = ''/reverse''"
  shows "ServeMux_ServeHTTP (main_mux gs) w r = pool_HandleReverse w r
         \<and> ServeMux_ServeHTTP (main_mux gs) w r = Delegated Pool_HandleReverse w r
         \<and> ServeMux_ServeHTTP (main_mux gs) w r \<noteq> grpc_ServeHTTP gs w r
         \<and> ServeMux_ServeHTTP (main_mux gs) w r \<noteq> handleStatus w r"
  using assms
  by (simp add: ServeMux_ServeHTTP_def main_mux_Handler cleanPath_reverse pool_HandleReverse_def
      grpc_ServeHTTP_def handleStatus_def)

theorem reverse_path_served_by_HandleReverse_witness:
  "URL_Path reverse_grpc_request = ''/reverse''
   \<and> ProtoMajor reverse_grpc_request = 2
   \<and> HasPrefix (Header_Get (Header reverse_grpc_request) ''Content-Type'') ''application/grpc''
   \<and> ServeMux_ServeHTTP (main_mux (grpc_NewServer [])) NewResponseWriter reverse_grpc_request
       = Delegated Pool_HandleReverse NewResponseWriter reverse_grpc_request"
proof -
  have p: "URL_Path reverse_grpc_request = ''/reverse''"
    by (simp add: reverse_grpc_request_def)
  show ?thesis
    using p reverse_path_served_by_HandleReverse [OF p, of "grpc_NewServer []" NewResponseWriter]
    by (simp add: reverse_grpc_request_def Header_Get_def HasPrefix_def pool_HandleReverse_def)
qed

text \<open>
  C2: the status handler, on a response writer to which nothing was written, answers the
  path \<open>/\<close> with status 200, Content-Type \<open>text/plain\<close> and the fixed body, and any
  other path with status 404.
\<close>

theorem handleStatus_response:
  assumes "wroteHeader w = None" and "written w = []"
  shows "\<exists>w'. handleStatus w r = Responded w'
           \<and> (if URL_Path r = ''/''
              then response_status w' = Some 200
                   \<and> response_header w' ''Content-Type'' = [''text/plain'']
                   \<and> written w' = ''gomote status page placeholder''
              else response_status w' = Some 404)"
  using assms
  by (simp add: handleStatus_def http_NotFound_def http_Error_def Write_def WriteHeader_def
      SetHeader_def Header_Set_def response_status_def response_header_def StatusNotFound_def
      StatusOK_def Let_def)

theorem handleStatus_response_witness:
  "wroteHeader NewResponseWriter = None \<and> written NewResponseWriter = []
   \<and> (\<exists>w'. handleStatus NewResponseWriter status_request = Responded w'
           \<and> response_status w' = Some 200
           \<and> response_header w' ''Content-Type'' = [''text/plain'']
           \<and> written w' = ''gomote status page placeholder'')
   \<and> (\<exists>w'. handleStatus NewResponseWriter reverse_grpc_request = Responded w'
           \<and> response_status w' = Some 404)"
proof -
  have h: "wroteHeader NewResponseWriter = None" "written NewResponseWriter = []"
    by (simp_all add: NewResponseWriter_def)
  show ?thesis
    using h handleStatus_response [OF h, of status_request]
      handleStatus_response [OF h, of reverse_grpc_request]
    by (simp add: status_request_def reverse_grpc_request_def)
qed

section \<open>Properties of the start-up\<close>

subsection \<open>Steps\<close>

lemma andThen_Inl [simp]: "andThen (t, Inl e) k = (t, Inl e)"
  by (simp add: andThen_def)

lemma andThen_Inr [simp]: "andThen (t, Inr v) k = (t @ fst (k v), snd (k v))"
  by (simp add: andThen_def split: prod.splits)

lemma andThen_calls [simp]: "andThen (calls ev v) k = (ev # fst (k v), snd (k v))"
  by (simp add: calls_def)

lemma fst_calls [simp]: "fst (calls ev v) = [ev]"
  by (simp add: calls_def)

lemma snd_calls [simp]: "snd (calls ev v) = Inr v"
  by (simp add: calls_def)

lemma fst_andThen:
  "fst (andThen m k) = (case snd m of Inl e \<Rightarrow> fst m | Inr v \<Rightarrow> fst m @ fst (k v))"
  by (cases m) (auto split: sum.splits)

lemma snd_andThen:
  "snd (andThen m k) = (case snd m of Inl e \<Rightarrow> Inl e | Inr v \<Rightarrow> snd (k v))"
  by (cases m) (auto split: sum.splits)

lemma count_andThen:
  "count_list (fst (andThen m k)) x =
     count_list (fst m) x + (case snd m of Inl e \<Rightarrow> 0 | Inr v \<Rightarrow> count_list (fst (k v)) x)"
  by (cases m) (auto simp: fst_andThen split: sum.splits)

lemma log_Fatal_eq [simp]: "log_Fatal msg ds = ([Logged msg], Inl (Exited 1))"
  by (simp add: log_Fatal_def os_Exit_def)

lemma returns_Nil [simp]: "returns w [] v = ([], Inr v)"
  by (simp add: returns_def)

subsection \<open>The helpers\<close>

lemma mustRetrieveSSHCertificateAuthority_eq:
  "mustRetrieveSSHCertificateAuthority w =
     (case remote_SSHKeyPair w 0 of
        Inl err \<Rightarrow> ([Called_SSHKeyPair 0, Logged (''unable to create SSH CA cert: '' @ err)],
                    Inl (Exited 1))
      | Inr (k, p) \<Rightarrow> ([Called_SSHKeyPair 0], Inr k))"
  by (simp add: mustRetrieveSSHCertificateAuthority_def split: sum.splits prod.splits)

lemma mustStorageClient_eq:
  "mustStorageClient w =
     (if metadata_OnGCE w
      then ([Queried_OnGCE, Called_NewGCEConfiguration_StorageClient], Inr GCEStorageClient)
      else case storage_NewClient w of
        Inl err \<Rightarrow> ([Queried_OnGCE, Called_storage_NewClient,
                     Logged (''unable to create storage client: '' @ err)], Inl (Exited 1))
      | Inr c \<Rightarrow> ([Queried_OnGCE, Called_storage_NewClient], Inr c))"
  by (simp add: mustStorageClient_def split: sum.splits)

lemma mustLUCIConfigClient_eq:
  "mustLUCIConfigClient w =
     (case swarmclient_NewConfigClient w \<lparr>timeout = Some 10000000000\<rparr> of
        Inl err \<Rightarrow> ([Called_NewConfigClient \<lparr>timeout = Some 10000000000\<rparr>,
                     Logged (''unable to create LUCI config client: '' @ err)], Inl (Exited 1))
      | Inr c \<Rightarrow> ([Called_NewConfigClient \<lparr>timeout = Some 10000000000\<rparr>, Called_cancel], Inr c))"
  by (simp add: mustLUCIConfigClient_def context_WithTimeout_def context_Background_def Second_def
      returns_def split: sum.splits)

lemma main_resolve_eq:
  "main_resolve w f =
     (if Managed w f then
        (case metadata_ProjectID w of
           Inl err \<Rightarrow> ([Queried_OnGCE, Queried_ProjectID, Logged (''metadata.ProjectID() = '' @ err)],
                       Inl (Exited 1))
         | Inr p \<Rightarrow>
             if IAPServiceID (buildenv_ByProjectID w p) ''coordinator-internal-iap'' = []
             then ([Queried_OnGCE, Queried_ProjectID, Called_ByProjectID p,
                    Logged (''unable to retrieve Service ID for backend service=''
                              @ quoted ''coordinator-internal-iap'')], Inl (Exited 1))
             else ([Queried_OnGCE, Queried_ProjectID, Called_ByProjectID p],
                   Inr (GomoteTransferBucket (buildenv_ByProjectID w p),
                        [UnaryInterceptor (RequireIAPAuthUnaryInterceptor IAPSkipAudienceValidation),
                         StreamInterceptor (RequireIAPAuthStreamInterceptor IAPSkipAudienceValidation)])))
      else if buildEnvName f = [] \<and> mode f \<noteq> ''dev'' then ([Queried_OnGCE], Inr ([], []))
      else ([], Inr ([], [])))"
  by (simp add: main_resolve_def Managed_def Let_def split: sum.splits)

lemma configureSSHServer_eq:
  "configureSSHServer w f ca sp =
     (if privateKey f \<noteq> [] \<and> publicKey f \<noteq> [] then
        ([Called_NewSSHServer (sshAddr f) (privateKey f) (publicKey f) ca],
         remote_NewSSHServer w (sshAddr f) (privateKey f) (publicKey f) ca sp)
      else if mode f \<noteq> ''dev'' then ([], Inl ''SSH key pair is not configured'')
      else case remote_SSHKeyPair w 1 of
        Inl err \<Rightarrow> ([Called_SSHKeyPair 1],
                    Inl (''unable to generate development SSH key pair: '' @ err))
      | Inr (priKey, pubKey) \<Rightarrow>
          ([Called_SSHKeyPair 1, Called_NewSSHServer (sshAddr f) priKey pubKey ca],
           remote_NewSSHServer w (sshAddr f) priKey pubKey ca sp))"
  by (simp add: configureSSHServer_def NewSSHServer_def split: sum.splits prod.splits)

lemma main_setup_events: "list_all of_setup (fst (main_setup w f))"
  by (simp add: main_setup_def fst_andThen snd_andThen mustRetrieveSSHCertificateAuthority_eq
      mustStorageClient_eq mustLUCIConfigClient_eq main_resolve_eq Let_def
      split: sum.splits option.splits prod.splits)

lemma main_setup_fatal: "snd (main_setup w f) = Inl e \<Longrightarrow> e = Exited 1"
  by (simp add: main_setup_def fst_andThen snd_andThen mustRetrieveSSHCertificateAuthority_eq
      mustStorageClient_eq mustLUCIConfigClient_eq main_resolve_eq Let_def
      split: sum.splits option.splits prod.splits if_splits)


lemma main_setup_never_returns_to_serve:
  "swarmclient_NewConfigClient w \<lparr>timeout = Some 10000000000\<rparr> = Inl err
     \<Longrightarrow> \<exists>e. snd (main_setup w f) = Inl e"
  by (simp add: main_setup_def fst_andThen snd_andThen mustRetrieveSSHCertificateAuthority_eq
      mustStorageClient_eq mustLUCIConfigClient_eq main_resolve_eq Let_def
      split: sum.splits option.splits prod.splits)

lemma main_after_setup:
  "main w f =
     (case main_setup w f of
        (t, Inl e) \<Rightarrow> (t, Inl e)
      | (t, Inr (ca, sp, gs)) \<Rightarrow>
          (case main_shell w f ca sp of
             (t1, Inl e) \<Rightarrow> (t @ t1, Inl e)
           | (t1, Inr deferred) \<Rightarrow>
               (case https_ListenAndServe w of
                  NeverReturns \<Rightarrow> (t @ t1 @ [Serving_Primary gs], Inl ServesForever)
                | Returns err \<Rightarrow>
                    (t @ t1 @ [Serving_Primary gs, Logged (case err of None \<Rightarrow> ''<nil>'' | Some e \<Rightarrow> e)],
                     Inl (Exited 1)))))"
  by (auto simp: main_def andThen_def calls_def log_Fatal_def os_Exit_def
      split: prod.splits sum.splits Returning.splits)

lemma main_shell_eq:
  "main_shell w f ca sp =
     (case snd (configureSSHServer w f ca sp) of
        Inl err \<Rightarrow> (fst (configureSSHServer w f ca sp)
                      @ [Logged (''unable to configure SSH server: '' @ err)], Inr [])
      | Inr s \<Rightarrow> (fst (configureSSHServer w f ca sp) @ [Started_SSHServer s],
                  Inr [Close_SSHServer s]))"
  by (simp add: main_shell_def split: prod.splits sum.splits)

lemma configureSSHServer_events:
  "Started_SSHServer s \<notin> set (fst (configureSSHServer w f ca sp))"
  "Called_Close s \<notin> set (fst (configureSSHServer w f ca sp))"
  "Serving_Primary g \<notin> set (fst (configureSSHServer w f ca sp))"
  "Queried_OnGCE \<notin> set (fst (configureSSHServer w f ca sp))"
  "Queried_ProjectID \<notin> set (fst (configureSSHServer w f ca sp))"
  by (simp_all add: configureSSHServer_eq split: sum.splits prod.splits)

lemma main_setup_not_of_setup:
  "Started_SSHServer s \<notin> set (fst (main_setup w f))"
  "Called_Close s \<notin> set (fst (main_setup w f))"
  "Serving_Primary g \<notin> set (fst (main_setup w f))"
  using main_setup_events [of w f] by (auto simp: list_all_iff)


lemma main_events:
  "set (fst (main w f)) \<subseteq>
     set (fst (main_setup w f))
     \<union> (case snd (main_setup w f) of
          Inl e \<Rightarrow> {}
        | Inr (ca, sp, gs) \<Rightarrow>
            set (fst (main_shell w f ca sp))
            \<union> {Serving_Primary gs}
            \<union> (case https_ListenAndServe w of
                 NeverReturns \<Rightarrow> {}
               | Returns err \<Rightarrow> {Logged (case err of None \<Rightarrow> ''<nil>'' | Some e \<Rightarrow> e)}))"
  by (auto simp: main_after_setup split: prod.splits sum.splits Returning.splits)

lemma main_never_closes: "Called_Close s \<notin> set (fst (main w f))"
  using main_events [of w f] main_setup_not_of_setup(2) [of s w f]
  by (auto simp: main_shell_eq configureSSHServer_events split: prod.splits sum.splits Returning.splits)

subsection \<open>The SSH server\<close>

text \<open>
  C3, as stated, fails: in dev mode without secrets, when the key pair cannot be drawn,
  \<open>configureSSHServer\<close> returns an error and no SSH server is started.
\<close>

theorem dev_key_generation_failure_starts_no_shell:
  "mode dev_flags = ''dev'' \<and> privateKey dev_flags = [] \<and> publicKey dev_flags = []
   \<and> configureSSHServer laptop_without_entropy dev_flags ''ca-private'' SessionPool
       = ([Called_SSHKeyPair 1], Inl ''unable to generate development SSH key pair: EOF'')
   \<and> main_shell laptop_without_entropy dev_flags ''ca-private'' SessionPool
       = ([Called_SSHKeyPair 1,
           Logged ''unable to configure SSH server: unable to generate development SSH key pair: EOF''],
          Inr [])"
  by (simp add: main_shell_eq configureSSHServer_eq dev_flags_def laptop_without_entropy_def laptop_def)

text \<open>
  C3, amended: the decision of \<open>configureSSHServer\<close>. With both secrets it builds the
  server from the supplied pair, whatever the mode; without secrets in dev mode it draws
  a key pair and builds the server from it; without secrets in any other mode it returns
  the configuration error. The server is started exactly when \<open>configureSSHServer\<close>
  returns one: an error of the key generator or of the constructor is returned like the
  configuration error, and then no server is started.
\<close>

theorem shell_lifecycle_decision:
  "(privateKey f \<noteq> [] \<and> publicKey f \<noteq> [] \<longrightarrow>
      snd (configureSSHServer w f ca sp)
        = remote_NewSSHServer w (sshAddr f) (privateKey f) (publicKey f) ca sp)
   \<and> (privateKey f = [] \<and> publicKey f = [] \<and> mode f = ''dev'' \<longrightarrow>
      snd (configureSSHServer w f ca sp)
        = (case remote_SSHKeyPair w 1 of
             Inl err \<Rightarrow> Inl (''unable to generate development SSH key pair: '' @ err)
           | Inr (priKey, pubKey) \<Rightarrow> remote_NewSSHServer w (sshAddr f) priKey pubKey ca sp))
   \<and> (privateKey f = [] \<and> publicKey f = [] \<and> mode f \<noteq> ''dev'' \<longrightarrow>
      configureSSHServer w f ca sp = ([], Inl ''SSH key pair is not configured''))
   \<and> (\<forall>s. (Started_SSHServer s \<in> set (fst (main_shell w f ca sp)))
            = (snd (configureSSHServer w f ca sp) = Inr s))"
proof -
  have "(Started_SSHServer s \<in> set (fst (main_shell w f ca sp)))
          = (snd (configureSSHServer w f ca sp) = Inr s)" for s
    using configureSSHServer_events(1) [of _ w f ca sp]
    by (auto simp: main_shell_eq split: sum.splits)
  then show ?thesis
    by (simp add: configureSSHServer_eq split: sum.splits prod.splits)
qed

theorem shell_lifecycle_decision_witness:
  "privateKey keyed_flags \<noteq> [] \<and> publicKey keyed_flags \<noteq> []
   \<and> snd (configureSSHServer cloud keyed_flags ''ca-private'' SessionPool) = Inr (SSHServer 0)
   \<and> Started_SSHServer (SSHServer 0) \<in> set (fst (main_shell cloud keyed_flags ''ca-private'' SessionPool))
   \<and> privateKey dev_flags = [] \<and> publicKey dev_flags = [] \<and> mode dev_flags = ''dev''
   \<and> snd (configureSSHServer laptop dev_flags ''ca-private'' SessionPool) = Inr (SSHServer 0)
   \<and> Started_SSHServer (SSHServer 0) \<in> set (fst (main_shell laptop dev_flags ''ca-private'' SessionPool))
   \<and> privateKey prod_flags = [] \<and> publicKey prod_flags = [] \<and> mode prod_flags \<noteq> ''dev''
   \<and> configureSSHServer cloud prod_flags ''ca-private'' SessionPool
       = ([], Inl ''SSH key pair is not configured'')
   \<and> Started_SSHServer (SSHServer 0) \<notin> set (fst (main_shell cloud prod_flags ''ca-private'' SessionPool))"
  using shell_lifecycle_decision [of keyed_flags cloud "''ca-private''" SessionPool]
    shell_lifecycle_decision [of dev_flags laptop "''ca-private''" SessionPool]
    shell_lifecycle_decision [of prod_flags cloud "''ca-private''" SessionPool]
  by (simp add: keyed_flags_def prod_flags_def dev_flags_def cloud_def laptop_def)

text \<open>
  C10: with exactly one of the two secrets, \<open>configureSSHServer\<close> and the lines that
  start the server do what they do with none: outside dev mode the configuration error
  and no server; in dev mode a freshly drawn key pair, the supplied key being used
  nowhere.
\<close>

theorem single_secret_treated_as_missing:
  assumes "(privateKey f = []) \<noteq> (publicKey f = [])"
  shows "configureSSHServer w f ca sp
           = configureSSHServer w (f\<lparr>privateKey := [], publicKey := []\<rparr>) ca sp
         \<and> main_shell w f ca sp = main_shell w (f\<lparr>privateKey := [], publicKey := []\<rparr>) ca sp
         \<and> (mode f \<noteq> ''dev'' \<longrightarrow>
              configureSSHServer w f ca sp = ([], Inl ''SSH key pair is not configured'')
              \<and> main_shell w f ca sp
                  = ([Logged ''unable to configure SSH server: SSH key pair is not configured''], Inr []))
         \<and> (mode f = ''dev'' \<longrightarrow>
              configureSSHServer w f ca sp
                = (case remote_SSHKeyPair w 1 of
                     Inl err \<Rightarrow> ([Called_SSHKeyPair 1],
                                 Inl (''unable to generate development SSH key pair: '' @ err))
                   | Inr (priKey, pubKey) \<Rightarrow>
                       ([Called_SSHKeyPair 1, Called_NewSSHServer (sshAddr f) priKey pubKey ca],
                        remote_NewSSHServer w (sshAddr f) priKey pubKey ca sp)))"
  using assms by (auto simp: main_shell_eq configureSSHServer_eq split: sum.splits prod.splits)

theorem single_secret_treated_as_missing_witness:
  "(privateKey half_keyed_flags = []) \<noteq> (publicKey half_keyed_flags = [])
   \<and> mode half_keyed_flags \<noteq> ''dev''
   \<and> main_shell cloud half_keyed_flags ''ca-private'' SessionPool
       = ([Logged ''unable to configure SSH server: SSH key pair is not configured''], Inr [])
   \<and> configureSSHServer laptop (half_keyed_flags\<lparr>mode := ''dev''\<rparr>) ''ca-private'' SessionPool
       = ([Called_SSHKeyPair 1, Called_NewSSHServer '':2222'' ''dev-private'' ''dev-public'' ''ca-private''],
          Inr (SSHServer 0))"
proof -
  have h: "(privateKey half_keyed_flags = []) \<noteq> (publicKey half_keyed_flags = [])"
    by (simp add: half_keyed_flags_def prod_flags_def)
  have h': "(privateKey (half_keyed_flags\<lparr>mode := ''dev''\<rparr>) = [])
              \<noteq> (publicKey (half_keyed_flags\<lparr>mode := ''dev''\<rparr>) = [])"
    by (simp add: half_keyed_flags_def prod_flags_def)
  show ?thesis
    using h single_secret_treated_as_missing [OF h, of cloud "''ca-private''" SessionPool]
      single_secret_treated_as_missing [OF h', of laptop "''ca-private''" SessionPool]
    by (simp add: half_keyed_flags_def prod_flags_def laptop_def cloud_def main_shell_eq
        configureSSHServer_eq)
qed

subsection \<open>Evaluation on the concrete inputs\<close>

lemma main_setup_laptop_dev:
  "main_setup laptop dev_flags =
     ([Logged ''starting gomote server'', Called_InitFlagSupport, Called_NewSessionPool,
       Called_SSHKeyPair 0, Called_NewScheduler, Called_grpc_NewServer [], Queried_OnGCE,
       Called_storage_NewClient, Called_NewConfigClient \<lparr>timeout = Some 10000000000\<rparr>,
       Called_cancel,
       Called_gomote_New (GomoteServer SessionPool Scheduler ''ca-private'' []
                            (UnauthenticatedStorageClient 0) (ConfigClient 0))],
      Inr (''ca-private'', SessionPool,
           GrpcServer [] [GomoteServer SessionPool Scheduler ''ca-private'' []
                            (UnauthenticatedStorageClient 0) (ConfigClient 0)]))"
  by (simp add: main_setup_def mustRetrieveSSHCertificateAuthority_eq mustStorageClient_eq
      mustLUCIConfigClient_eq main_resolve_eq Managed_def laptop_def dev_flags_def
      grpc_NewServer_def RegisterGomoteServiceServer_def Let_def)

lemma main_laptop_dev:
  "main laptop dev_flags =
     ([Logged ''starting gomote server'', Called_InitFlagSupport, Called_NewSessionPool,
       Called_SSHKeyPair 0, Called_NewScheduler, Called_grpc_NewServer [], Queried_OnGCE,
       Called_storage_NewClient, Called_NewConfigClient \<lparr>timeout = Some 10000000000\<rparr>,
       Called_cancel,
       Called_gomote_New (GomoteServer SessionPool Scheduler ''ca-private'' []
                            (UnauthenticatedStorageClient 0) (ConfigClient 0)),
       Called_SSHKeyPair 1,
       Called_NewSSHServer '':2222'' ''dev-private'' ''dev-public'' ''ca-private'',
       Started_SSHServer (SSHServer 0),
       Serving_Primary (GrpcServer [] [GomoteServer SessionPool Scheduler ''ca-private'' []
                                         (UnauthenticatedStorageClient 0) (ConfigClient 0)]),
       Logged ''listen tcp :443: bind: address already in use''],
      Inl (Exited 1))"
  unfolding main_after_setup main_setup_laptop_dev
  by (simp add: main_shell_eq configureSSHServer_eq laptop_def dev_flags_def)

lemma main_setup_cloud_prod:
  "main_setup cloud prod_flags =
     ([Logged ''starting gomote server'', Called_InitFlagSupport, Called_NewSessionPool,
       Called_SSHKeyPair 0, Called_NewScheduler, Queried_OnGCE, Queried_ProjectID,
       Called_ByProjectID ''symbolic-datum-552'',
       Called_grpc_NewServer
         [UnaryInterceptor (RequireIAPAuthUnaryInterceptor IAPSkipAudienceValidation),
          StreamInterceptor (RequireIAPAuthStreamInterceptor IAPSkipAudienceValidation)],
       Queried_OnGCE, Called_NewGCEConfiguration_StorageClient,
       Called_NewConfigClient \<lparr>timeout = Some 10000000000\<rparr>, Called_cancel,
       Called_gomote_New (GomoteServer SessionPool Scheduler ''ca-private'' ''go-gomote-transfer''
                            GCEStorageClient (ConfigClient 0))],
      Inr (''ca-private'', SessionPool,
           GrpcServer
             [UnaryInterceptor (RequireIAPAuthUnaryInterceptor IAPSkipAudienceValidation),
              StreamInterceptor (RequireIAPAuthStreamInterceptor IAPSkipAudienceValidation)]
             [GomoteServer SessionPool Scheduler ''ca-private'' ''go-gomote-transfer''
                GCEStorageClient (ConfigClient 0)]))"
  by (simp add: main_setup_def mustRetrieveSSHCertificateAuthority_eq mustStorageClient_eq
      mustLUCIConfigClient_eq main_resolve_eq Managed_def cloud_def laptop_def prod_flags_def
      grpc_NewServer_def RegisterGomoteServiceServer_def Let_def)

lemma main_laptop_without_luci:
  "main laptop_without_luci dev_flags =
     ([Logged ''starting gomote server'', Called_InitFlagSupport, Called_NewSessionPool,
       Called_SSHKeyPair 0, Called_NewScheduler, Called_grpc_NewServer [], Queried_OnGCE,
       Called_storage_NewClient, Called_NewConfigClient \<lparr>timeout = Some 10000000000\<rparr>,
       Logged ''unable to create LUCI config client: context deadline exceeded''],
      Inl (Exited 1))"
  by (simp add: main_after_setup main_setup_def mustRetrieveSSHCertificateAuthority_eq
      mustStorageClient_eq mustLUCIConfigClient_eq main_resolve_eq Managed_def
      laptop_without_luci_def laptop_def dev_flags_def grpc_NewServer_def Let_def)


subsection \<open>A shell that cannot be configured\<close>

text \<open>
  C4: when \<open>main\<close> reaches the SSH server and \<open>configureSSHServer\<close> returns an
  error, \<open>main\<close> logs the error and goes on to serve the primary listener: the events
  after those of \<open>configureSSHServer\<close> are the log line and the call that serves the
  multiplexer, no SSH server is started anywhere in the run, and how the process ends
  is up to the primary listener alone.
\<close>

theorem shell_configuration_failure_not_fatal:
  assumes "main_setup w f = (t, Inr (ca, sp, gs))"
      and "configureSSHServer w f ca sp = (tc, Inl err)"
  shows "fst (main w f) =
           t @ tc @ [Logged (''unable to configure SSH server: '' @ err), Serving_Primary gs]
             @ (case https_ListenAndServe w of
                  NeverReturns \<Rightarrow> []
                | Returns e \<Rightarrow> [Logged (case e of None \<Rightarrow> ''<nil>'' | Some m \<Rightarrow> m)])
         \<and> snd (main w f) =
             (case https_ListenAndServe w of
                NeverReturns \<Rightarrow> Inl ServesForever
              | Returns e \<Rightarrow> Inl (Exited 1))
         \<and> (\<forall>s. Started_SSHServer s \<notin> set (fst (main w f)))"
proof -
  have t: "Started_SSHServer s \<notin> set t" for s
    using main_setup_not_of_setup(1) [of s w f] assms(1) by simp
  have tc: "Started_SSHServer s \<notin> set tc" for s
    using configureSSHServer_events(1) [of s w f ca sp] assms(2) by simp
  show ?thesis
    using assms t tc by (simp add: main_after_setup main_shell_eq split: Returning.splits)
qed

theorem shell_configuration_failure_not_fatal_witness:
  "(\<exists>t gs. main_setup cloud prod_flags = (t, Inr (''ca-private'', SessionPool, gs))
      \<and> configureSSHServer cloud prod_flags ''ca-private'' SessionPool
          = ([], Inl ''SSH key pair is not configured'')
      \<and> fst (main cloud prod_flags)
          = t @ [Logged ''unable to configure SSH server: SSH key pair is not configured'',
                 Serving_Primary gs]
      \<and> snd (main cloud prod_flags) = Inl ServesForever)"
proof -
  have c: "configureSSHServer cloud prod_flags ''ca-private'' SessionPool
             = ([], Inl ''SSH key pair is not configured'')"
    by (simp add: configureSSHServer_eq prod_flags_def)
  have n: "https_ListenAndServe cloud = NeverReturns"
    by (simp add: cloud_def)
  show ?thesis
    using shell_configuration_failure_not_fatal [OF main_setup_cloud_prod c] c n
    by (simp add: main_setup_cloud_prod)
qed

subsection \<open>The options of the gRPC server\<close>

lemma main_resolve_events:
  "Called_grpc_NewServer opts \<notin> set (fst (main_resolve w f))"
  "Called_gomote_New srv \<notin> set (fst (main_resolve w f))"
  by (simp_all add: main_resolve_eq split: sum.splits)

lemma main_setup_grpc_NewServer:
  "Called_grpc_NewServer opts \<in> set (fst (main_setup w f))
     \<Longrightarrow> \<exists>bucket. snd (main_resolve w f) = Inr (bucket, opts)"
  using main_resolve_events(1) [of opts w f]
  by (simp add: main_setup_def fst_andThen snd_andThen mustRetrieveSSHCertificateAuthority_eq
      mustStorageClient_eq mustLUCIConfigClient_eq Let_def
      split: sum.splits option.splits prod.splits if_splits)

text \<open>
  C5: the options with which the gRPC server is made. When lines 54 to 69 do not end
  the process, the options are not empty if and only if the context is managed and the
  metadata server gives a project whose build environment has a service identity for
  the coordinator backend; they are then the unary and the streaming IAP interceptor,
  one of each. In a context that is not managed the lines always go through, with no
  option. \<open>grpc.NewServer\<close> is called with these options and no others.
\<close>

theorem auth_policy_nonempty_iff_managed:
  "(\<forall>bucket opts. snd (main_resolve w f) = Inr (bucket, opts) \<longrightarrow>
       ((opts \<noteq> []) =
          (Managed w f \<and>
           (\<exists>p. metadata_ProjectID w = Inr p
                \<and> IAPServiceID (buildenv_ByProjectID w p) ''coordinator-internal-iap'' \<noteq> [])))
       \<and> (opts \<noteq> [] \<longrightarrow>
            opts = [UnaryInterceptor (RequireIAPAuthUnaryInterceptor IAPSkipAudienceValidation),
                    StreamInterceptor (RequireIAPAuthStreamInterceptor IAPSkipAudienceValidation)]))
   \<and> (\<not> Managed w f \<longrightarrow> snd (main_resolve w f) = Inr ([], []))
   \<and> (\<forall>opts. Called_grpc_NewServer opts \<in> set (fst (main w f)) \<longrightarrow>
         (\<exists>bucket. snd (main_resolve w f) = Inr (bucket, opts)))"
proof -
  have a: "\<exists>bucket. snd (main_resolve w f) = Inr (bucket, opts)"
    if "Called_grpc_NewServer opts \<in> set (fst (main w f))" for opts
  proof -
    have "Called_grpc_NewServer opts \<in> set (fst (main_setup w f))"
      using that main_events [of w f]
      by (auto simp: main_shell_eq configureSSHServer_eq
          split: sum.splits prod.splits Returning.splits if_splits)
    then show ?thesis by (rule main_setup_grpc_NewServer)
  qed
  have b: "\<not> Managed w f \<longrightarrow> snd (main_resolve w f) = Inr ([], [])"
    by (simp add: main_resolve_eq)
  have c: "snd (main_resolve w f) = Inr (bucket, opts) \<longrightarrow>
       ((opts \<noteq> []) =
          (Managed w f \<and>
           (\<exists>p. metadata_ProjectID w = Inr p
                \<and> IAPServiceID (buildenv_ByProjectID w p) ''coordinator-internal-iap'' \<noteq> [])))
       \<and> (opts \<noteq> [] \<longrightarrow>
            opts = [UnaryInterceptor (RequireIAPAuthUnaryInterceptor IAPSkipAudienceValidation),
                    StreamInterceptor (RequireIAPAuthStreamInterceptor IAPSkipAudienceValidation)])"
    for bucket opts
    by (auto simp: main_resolve_eq split: sum.splits if_splits)
  from a b c show ?thesis by blast
qed

theorem auth_policy_nonempty_iff_managed_witness:
  "Managed cloud prod_flags
   \<and> snd (main_resolve cloud prod_flags)
       = Inr (''go-gomote-transfer'',
              [UnaryInterceptor (RequireIAPAuthUnaryInterceptor IAPSkipAudienceValidation),
               StreamInterceptor (RequireIAPAuthStreamInterceptor IAPSkipAudienceValidation)])
   \<and> \<not> Managed cloud dev_flags \<and> snd (main_resolve cloud dev_flags) = Inr ([], [])
   \<and> \<not> Managed laptop prod_flags \<and> snd (main_resolve laptop prod_flags) = Inr ([], [])
   \<and> Called_grpc_NewServer [] \<in> set (fst (main laptop dev_flags))
   \<and> snd (main_resolve laptop dev_flags) = Inr ([], [])"
proof -
  have a: "Managed cloud prod_flags" "\<not> Managed cloud dev_flags" "\<not> Managed laptop prod_flags"
    by (simp_all add: Managed_def cloud_def laptop_def prod_flags_def dev_flags_def)
  have b: "metadata_ProjectID cloud = Inr ''symbolic-datum-552''"
    "IAPServiceID (buildenv_ByProjectID cloud ''symbolic-datum-552'') ''coordinator-internal-iap'' \<noteq> []"
    "GomoteTransferBucket (buildenv_ByProjectID cloud ''symbolic-datum-552'') = ''go-gomote-transfer''"
    by (simp_all add: cloud_def)
  have c: "Called_grpc_NewServer [] \<in> set (fst (main laptop dev_flags))"
    by (simp add: main_laptop_dev)
  have d: "mode dev_flags = ''dev''" "mode prod_flags = []" "buildEnvName prod_flags = []"
    "\<not> metadata_OnGCE laptop"
    by (simp_all add: dev_flags_def prod_flags_def laptop_def)
  show ?thesis
    using auth_policy_nonempty_iff_managed [of cloud prod_flags]
      auth_policy_nonempty_iff_managed [of cloud dev_flags]
      auth_policy_nonempty_iff_managed [of laptop prod_flags]
      auth_policy_nonempty_iff_managed [of laptop dev_flags] a b c d
    by (simp add: main_resolve_eq Managed_def)
qed


subsection \<open>Dev mode and the metadata server\<close>

lemma main_shell_metadata:
  "Queried_OnGCE \<notin> set (fst (main_shell w f ca sp))"
  "Queried_ProjectID \<notin> set (fst (main_shell w f ca sp))"
  "Called_grpc_NewServer opts \<notin> set (fst (main_shell w f ca sp))"
  "Called_gomote_New srv \<notin> set (fst (main_shell w f ca sp))"
  by (simp_all add: main_shell_eq configureSSHServer_eq split: sum.splits prod.splits)

lemma fst_main:
  "fst (main w f) =
     fst (main_setup w f)
     @ (case snd (main_setup w f) of
          Inl e \<Rightarrow> []
        | Inr (ca, sp, gs) \<Rightarrow>
            fst (main_shell w f ca sp)
            @ Serving_Primary gs
            # (case https_ListenAndServe w of
                 NeverReturns \<Rightarrow> []
               | Returns err \<Rightarrow> [Logged (case err of None \<Rightarrow> ''<nil>'' | Some e \<Rightarrow> e)]))"
  by (cases "main_setup w f")
     (simp add: main_after_setup main_shell_eq split: sum.splits prod.splits Returning.splits)

lemma main_setup_dev:
  assumes "mode f = ''dev''"
  shows "Queried_ProjectID \<notin> set (fst (main_setup w f))"
    and "count_list (fst (main_setup w f)) Queried_OnGCE \<le> 1"
  using assms
  by (simp_all add: main_setup_def fst_andThen snd_andThen count_andThen main_resolve_eq Managed_def
      mustRetrieveSSHCertificateAuthority_eq mustStorageClient_eq mustLUCIConfigClient_eq Let_def
      split: sum.splits option.splits prod.splits)

text \<open>
  C6, as stated, fails: in dev mode \<open>main\<close> still asks whether it runs on the cloud
  substrate, in \<open>mustStorageClient\<close>, which does not look at the mode.
\<close>

theorem dev_mode_still_checks_substrate:
  "mode dev_flags = ''dev''
   \<and> Queried_OnGCE \<in> set (fst (main laptop dev_flags))
   \<and> fst (mustStorageClient laptop) = [Queried_OnGCE, Called_storage_NewClient]"
  by (simp add: main_laptop_dev mustStorageClient_eq) (simp add: dev_flags_def laptop_def)

text \<open>
  C6, amended: in dev mode lines 54 to 69 ask the metadata server nothing and give the
  local settings (no bucket, no interceptor), the context is not managed, the gRPC
  server is made without options, and the whole run never looks up the project
  identity. What remains is at most one on-substrate check, that of
  \<open>mustStorageClient\<close>.
\<close>

theorem dev_mode_skips_environment_resolution:
  assumes "mode f = ''dev''"
  shows "main_resolve w f = ([], Inr ([], []))
         \<and> \<not> Managed w f
         \<and> Queried_ProjectID \<notin> set (fst (main w f))
         \<and> count_list (fst (main w f)) Queried_OnGCE \<le> 1
         \<and> (\<forall>opts. Called_grpc_NewServer opts \<in> set (fst (main w f)) \<longrightarrow> opts = [])"
proof -
  have r: "main_resolve w f = ([], Inr ([], []))" and m: "\<not> Managed w f"
    using assms by (simp_all add: main_resolve_eq Managed_def)
  have p: "Queried_ProjectID \<notin> set (fst (main w f))"
    using main_events [of w f] main_setup_dev(1) [OF assms, of w]
      main_shell_metadata(2) [of w f]
    by (auto split: sum.splits prod.splits Returning.splits)
  have s0: "count_list (fst (main_shell w f ca sp)) Queried_OnGCE = 0" for ca sp
    using main_shell_metadata(1) [of w f ca sp] by (simp add: count_list_0_iff)
  have c: "count_list (fst (main w f)) Queried_OnGCE \<le> 1"
    using main_setup_dev(2) [OF assms, of w]
    by (simp add: fst_main s0 split: sum.splits prod.splits Returning.splits)
  have o: "opts = []" if "Called_grpc_NewServer opts \<in> set (fst (main w f))" for opts
  proof -
    have "Called_grpc_NewServer opts \<in> set (fst (main_setup w f))"
      using that main_events [of w f] main_shell_metadata(3) [of opts w f]
      by (auto split: sum.splits prod.splits Returning.splits)
    then have "\<exists>bucket. snd (main_resolve w f) = Inr (bucket, opts)"
      by (rule main_setup_grpc_NewServer)
    with r show ?thesis by simp
  qed
  from r m p c o show ?thesis by blast
qed

theorem dev_mode_skips_environment_resolution_witness:
  "mode dev_flags = ''dev''
   \<and> main_resolve cloud dev_flags = ([], Inr ([], []))
   \<and> Queried_ProjectID \<notin> set (fst (main laptop dev_flags))
   \<and> count_list (fst (main laptop dev_flags)) Queried_OnGCE = 1
   \<and> Called_grpc_NewServer [] \<in> set (fst (main laptop dev_flags))"
proof -
  have d: "mode dev_flags = ''dev''" by (simp add: dev_flags_def)
  have c: "count_list (fst (main laptop dev_flags)) Queried_OnGCE = 1"
    "Called_grpc_NewServer [] \<in> set (fst (main laptop dev_flags))"
    by (simp_all add: main_laptop_dev)
  show ?thesis
    using d c dev_mode_skips_environment_resolution [OF d, of cloud]
      dev_mode_skips_environment_resolution [OF d, of laptop]
    by simp
qed

subsection \<open>The deferred close\<close>

text \<open>
  C7 does not hold of the code. The only way out of \<open>main\<close> after the \<open>defer\<close> is
  \<open>log.Fatalln\<close>, which calls \<open>os.Exit\<close>, and \<open>os.Exit\<close> runs no deferred call. On
  the laptop in dev mode the SSH server is started, the primary listener fails, and the
  process exits with code 1 without a call of \<open>Close\<close>. Had \<open>main\<close> returned
  instead, the deferred call would have run. No run of \<open>main\<close> at all calls
  \<open>Close\<close>.
\<close>

theorem fatal_exit_skips_deferred_close:
  "Started_SSHServer (SSHServer 0) \<in> set (fst (main laptop dev_flags))
   \<and> Called_Close (SSHServer 0) \<notin> set (fst (main laptop dev_flags))
   \<and> snd (main laptop dev_flags) = Inl (Exited 1)
   \<and> (returns laptop [Close_SSHServer (SSHServer 0)] () :: (Ending, unit) Step)
       = ([Called_Close (SSHServer 0)], Inr ())
   \<and> Called_Close s \<notin> set (fst (main w f))"
  using main_never_closes [of s w f]
  by (simp add: main_laptop_dev returns_def) (simp add: laptop_def)

subsection \<open>The configuration client\<close>

lemma main_setup_without_config_client:
  assumes "swarmclient_NewConfigClient w \<lparr>timeout = Some 10000000000\<rparr> = Inl err"
  shows "Called_gomote_New srv \<notin> set (fst (main_setup w f))"
  using assms main_resolve_events(2) [of srv w f]
  by (simp add: main_setup_def fst_andThen snd_andThen mustRetrieveSSHCertificateAuthority_eq
      mustStorageClient_eq mustLUCIConfigClient_eq Let_def
      split: sum.splits option.splits prod.splits)

text \<open>
  C8: \<open>mustLUCIConfigClient\<close> calls the constructor once, with a context whose timeout
  is 10 seconds (10 * 10^9 nanoseconds). Whatever error the constructor returns, the
  expiry of the timeout among them, the function logs it and the process exits with
  code 1: \<open>gomote.New\<close> is not called and the primary listener is never served.
\<close>

theorem config_client_timeout_is_fatal:
  "(\<exists>t. fst (mustLUCIConfigClient w)
           = Called_NewConfigClient (context_WithTimeout context_Background (10 * Second)) # t)
   \<and> timeout (context_WithTimeout context_Background (10 * Second)) = Some (10 * Second)
   \<and> 10 * Second = 10 * 10 ^ 9
   \<and> (\<forall>err. swarmclient_NewConfigClient w (context_WithTimeout context_Background (10 * Second))
               = Inl err \<longrightarrow>
         mustLUCIConfigClient w
           = ([Called_NewConfigClient (context_WithTimeout context_Background (10 * Second)),
               Logged (''unable to create LUCI config client: '' @ err)], Inl (Exited 1))
         \<and> snd (main w f) = Inl (Exited 1)
         \<and> (\<forall>gs. Serving_Primary gs \<notin> set (fst (main w f)))
         \<and> (\<forall>srv. Called_gomote_New srv \<notin> set (fst (main w f))))"
proof -
  have ctx: "context_WithTimeout context_Background (10 * Second) = \<lparr>timeout = Some 10000000000\<rparr>"
    by (simp add: context_WithTimeout_def context_Background_def Second_def)
  have fatal: "snd (main w f) = Inl (Exited 1)
         \<and> (\<forall>gs. Serving_Primary gs \<notin> set (fst (main w f)))
         \<and> (\<forall>srv. Called_gomote_New srv \<notin> set (fst (main w f)))"
    if e: "swarmclient_NewConfigClient w \<lparr>timeout = Some 10000000000\<rparr> = Inl err" for err
  proof -
    obtain x where x: "snd (main_setup w f) = Inl x"
      using main_setup_never_returns_to_serve [OF e] by blast
    then have x1: "x = Exited 1" by (rule main_setup_fatal)
    have m: "main w f = (fst (main_setup w f), Inl (Exited 1))"
      using x x1 by (cases "main_setup w f") (simp add: main_after_setup)
    show ?thesis
      using main_setup_not_of_setup(3) [of _ w f] main_setup_without_config_client [OF e, of _ f]
      by (simp add: m)
  qed
  show ?thesis
    unfolding ctx using fatal
    by (auto simp: mustLUCIConfigClient_eq Second_def split: sum.splits)
qed

theorem config_client_timeout_is_fatal_witness:
  "swarmclient_NewConfigClient laptop_without_luci
       (context_WithTimeout context_Background (10 * Second)) = Inl ''context deadline exceeded''
   \<and> mustLUCIConfigClient laptop_without_luci
       = ([Called_NewConfigClient (context_WithTimeout context_Background (10 * Second)),
           Logged ''unable to create LUCI config client: context deadline exceeded''],
          Inl (Exited 1))
   \<and> snd (main laptop_without_luci dev_flags) = Inl (Exited 1)
   \<and> last (fst (main laptop_without_luci dev_flags))
       = Logged ''unable to create LUCI config client: context deadline exceeded''"
proof -
  have e: "swarmclient_NewConfigClient laptop_without_luci
       (context_WithTimeout context_Background (10 * Second)) = Inl ''context deadline exceeded''"
    by (simp add: laptop_without_luci_def)
  have l: "last (fst (main laptop_without_luci dev_flags))
       = Logged ''unable to create LUCI config client: context deadline exceeded''"
    by (simp add: main_laptop_without_luci)
  from config_client_timeout_is_fatal [of laptop_without_luci dev_flags] e
  have "mustLUCIConfigClient laptop_without_luci
          = ([Called_NewConfigClient (context_WithTimeout context_Background (10 * Second)),
              Logged (''unable to create LUCI config client: '' @ ''context deadline exceeded'')],
             Inl (Exited 1))
        \<and> snd (main laptop_without_luci dev_flags) = Inl (Exited 1)"
    by blast
  with e l show ?thesis by simp
qed

end
